theory Spec2Isabelle
  imports Main
begin

section \<open>Data model of the newsletter page\<close>

text \<open>
  The page component \<^verbatim>\<open>Page\<close> keeps all of its state in React state cells. Each cell
  becomes a field of the record \<open>page_state\<close>, under the name the source gives it.
  The element types of the lists are records too; their fields carry the name of the
  type as a prefix, since \<^verbatim>\<open>title\<close>, \<^verbatim>\<open>link\<close>, \<^verbatim>\<open>summary\<close> and \<^verbatim>\<open>content\<close>
  occur in several of them, and \<^verbatim>\<open>id\<close> is a constant of HOL.
\<close>

record article =
  article_title :: string
  article_link :: string
  article_summary :: "string option"
  article_published :: "string option"
  article_source :: "string option"

record highlight =
  highlight_title :: string
  highlight_link :: string
  highlight_source :: "string option"
  highlight_summary :: string

record tweet =
  tweet_id :: string
  tweet_content :: string
  tweet_summary_title :: string
  tweet_summary_link :: string
  tweet_summary_source :: string

text \<open>An entry of \<^verbatim>\<open>tweetConversations\<close>: \<^verbatim>\<open>{role: string, content: string}\<close>.\<close>

record message =
  message_role :: string
  message_content :: string

text \<open>
  The type of \<^verbatim>\<open>editTarget\<close>: \<^verbatim>\<open>'summary' | `tweet-${number}` | 'newsletter'\<close>. The
  number of a tweet target is an index into the tweet list, a natural number.
\<close>

datatype edit_target = Summary | TweetTarget nat | Newsletter

text \<open>The type \<^verbatim>\<open>ConversationTurn\<close> of the modal editor.\<close>

datatype turn_role = User | Assistant

record conversation_turn =
  role :: turn_role
  content :: string

record page_state =
  sessionId :: string
  sources :: "string list"
  articles :: "article list"
  summary :: string
  tweets :: "tweet list"
  newsletterHtml :: string
  loading :: bool
  loadingHighlights :: bool
  loadingSummaries :: bool
  loadingTweets :: bool
  loadingNewsletter :: bool
  summariesMode :: bool
  pageIndex :: int
  highlights :: "highlight list"
  selectedArticles :: "string list"
  isPaginated :: bool
  currentEditingTweetId :: "string option"
  tweetConversations :: "string \<rightharpoonup> message list"
  pendingTweetUpdate :: "string option"
  editorOpen :: bool
  editorTitle :: string
  editorText :: string
  editTarget :: edit_target

text \<open>
  What an operation does besides updating the state: it shows a blocking notice
  (\<^verbatim>\<open>alert\<close>) or sends a request to the backend (\<^verbatim>\<open>fetch\<close>). The notice of
  \<^verbatim>\<open>getHighlights\<close> is the text
  \<^verbatim>\<open>Please select 5 or fewer articles for summarization. You currently have N articles selected.\<close>;
  the constructor carries the number \<open>N\<close>.
\<close>

datatype request =
  Aggregate "string list"
| Highlights string "article list"
| SummariesSelected "article list"
| Tweets string "highlight list"
| NewsletterReq string string "article list"
| EditTweet string string string string string "message list"
| Edit string string string "conversation_turn list"

datatype effect = Alert nat | Fetch request

text \<open>The body of the answer of \<^verbatim>\<open>/edit_tweet\<close>, as far as the page reads it.\<close>

record edit_response =
  new_tweet :: string
  conversation_history :: "message list"
  ai_response :: string

text \<open>
  JavaScript's truthiness of a value of type \<^verbatim>\<open>string | null\<close>: \<^verbatim>\<open>null\<close> and the
  empty string are falsy.
\<close>

definition truthy :: "string option \<Rightarrow> bool" where
  "truthy v = (case v of None \<Rightarrow> False | Some s \<Rightarrow> s \<noteq> [])"

text \<open>\<^verbatim>\<open>const hasHighlights = useMemo(() => !!summary, [summary])\<close>\<close>

definition hasHighlights :: "page_state \<Rightarrow> bool" where
  "hasHighlights st = (summary st \<noteq> [])"

section \<open>Operations of the page\<close>

text \<open>
  A synchronous handler is a function from state to state. An asynchronous one is split
  at its \<^verbatim>\<open>await\<close>: the part before it takes the state the handler was called in and
  returns the state after its setters together with the effects it caused; the part
  after it takes the answer of the backend and the state at the time the answer arrives.
  Values that the handler holds in local constants across the \<^verbatim>\<open>await\<close> are arguments of
  the second part.
\<close>

subsection \<open>\<^verbatim>\<open>getHighlights\<close>\<close>

definition getHighlights :: "page_state \<Rightarrow> page_state \<times> effect list" where
  "getHighlights st =
     (if length (selectedArticles st) > 5
      then (st, [Alert (length (selectedArticles st))])
      else (st\<lparr>loadingSummaries := True\<rparr>,
            [Fetch (SummariesSelected
               (filter (\<lambda>a. article_link a \<in> set (selectedArticles st)) (articles st)))]))"

text \<open>\<^verbatim>\<open>const items = data.items || []\<close>, then the four setters.\<close>

definition getHighlights_resolved :: "highlight list option \<Rightarrow> page_state \<Rightarrow> page_state" where
  "getHighlights_resolved data_items st =
     (let items = (case data_items of None \<Rightarrow> [] | Some xs \<Rightarrow> xs)
      in st\<lparr>loadingSummaries := False, highlights := items,
             summariesMode := True, pageIndex := 0\<rparr>)"

text \<open>The \<^verbatim>\<open>catch\<close> branch clears the flag and throws the error again.\<close>

definition getHighlights_failed :: "page_state \<Rightarrow> page_state" where
  "getHighlights_failed st = st\<lparr>loadingSummaries := False\<rparr>"

subsection \<open>\<^verbatim>\<open>resetSummaries\<close>\<close>

definition resetSummaries :: "page_state \<Rightarrow> page_state" where
  "resetSummaries st =
     st\<lparr>summariesMode := False, summary := [], articles := [], tweets := [],
        newsletterHtml := [], pageIndex := 0, highlights := [],
        selectedArticles := [], isPaginated := True\<rparr>"

subsection \<open>The tweet editor\<close>

definition openTweetEditor :: "tweet \<Rightarrow> page_state \<Rightarrow> page_state" where
  "openTweetEditor t st =
     (if currentEditingTweetId st = Some (tweet_id t)
      then st\<lparr>currentEditingTweetId := None, pendingTweetUpdate := None\<rparr>
      else st\<lparr>currentEditingTweetId := Some (tweet_id t), pendingTweetUpdate := None\<rparr>)"

text \<open>
  \<^verbatim>\<open>sendTweetMessage\<close> up to its \<^verbatim>\<open>await\<close>. It sets no state; the request it sends
  names the tweet that is being edited at the time of the call.
\<close>

definition sendTweetMessage :: "string \<Rightarrow> page_state \<Rightarrow> page_state \<times> effect list" where
  "sendTweetMessage msg st =
     (if \<not> truthy (currentEditingTweetId st) then (st, [])
      else case find (\<lambda>t. Some (tweet_id t) = currentEditingTweetId st) (tweets st) of
        None \<Rightarrow> (st, [])
      | Some currentTweet \<Rightarrow>
          (st, [Fetch (EditTweet (sessionId st) (tweet_id currentTweet)
                  (tweet_content currentTweet)
                  (case find (\<lambda>h. highlight_link h = tweet_summary_link currentTweet)
                          (highlights st) of
                     None \<Rightarrow> [] | Some h \<Rightarrow> highlight_summary h)
                  msg
                  (case tweetConversations st (tweet_id currentTweet) of
                     None \<Rightarrow> [] | Some h \<Rightarrow> h))]))"

text \<open>
  \<^verbatim>\<open>sendTweetMessage\<close> after its \<^verbatim>\<open>await\<close>: \<open>tid\<close> is \<^verbatim>\<open>currentTweet.id\<close>, held from
  the call; \<open>st\<close> is the state when the answer arrives. The first setter stores a value,
  the second one updates the conversations of that moment
  (\<^verbatim>\<open>prev => ({...prev, [currentTweet.id]: data.conversation_history})\<close>). The handler
  returns \<^verbatim>\<open>data.ai_response\<close>.
\<close>

definition sendTweetMessage_resolved ::
  "string \<Rightarrow> edit_response \<Rightarrow> page_state \<Rightarrow> page_state \<times> string" where
  "sendTweetMessage_resolved tid data st =
     (st\<lparr>pendingTweetUpdate := Some (new_tweet data),
         tweetConversations := (tweetConversations st)(tid \<mapsto> conversation_history data)\<rparr>,
      ai_response data)"

definition acceptTweetUpdate :: "page_state \<Rightarrow> page_state" where
  "acceptTweetUpdate st =
     (if \<not> truthy (currentEditingTweetId st) \<or> \<not> truthy (pendingTweetUpdate st) then st
      else case pendingTweetUpdate st of
        None \<Rightarrow> st
      | Some update \<Rightarrow>
          st\<lparr>tweets :=
               map (\<lambda>t. if Some (tweet_id t) = currentEditingTweetId st
                        then t\<lparr>tweet_content := update\<rparr>
                        else t) (tweets st),
             pendingTweetUpdate := None\<rparr>)"

definition rejectTweetUpdate :: "page_state \<Rightarrow> page_state" where
  "rejectTweetUpdate st = st\<lparr>pendingTweetUpdate := None\<rparr>"

text \<open>The handler \<^verbatim>\<open>onCloseEditor\<close> that the page passes to the tweet cards.\<close>

definition onCloseEditor :: "page_state \<Rightarrow> page_state" where
  "onCloseEditor st = st\<lparr>currentEditingTweetId := None, pendingTweetUpdate := None\<rparr>"

subsection \<open>The tweet cards\<close>

text \<open>
  The component \<^verbatim>\<open>TweetCards\<close> is rendered when the tweet list is not empty and shows
  one card for each tweet. The card of the tweet under edit holds the inline editor;
  the other cards hold the button "Edit with AI", whose handler is \<^verbatim>\<open>onEdit(tweet)\<close>,
  that is \<^verbatim>\<open>openTweetEditor\<close>.
\<close>

definition card_shown :: "tweet \<Rightarrow> page_state \<Rightarrow> bool" where
  "card_shown t st = (length (tweets st) > 0 \<and> t \<in> set (tweets st))"

definition editor_shown :: "tweet \<Rightarrow> page_state \<Rightarrow> bool" where
  "editor_shown t st = (card_shown t st \<and> currentEditingTweetId st = Some (tweet_id t))"

definition click_EditWithAI :: "tweet \<Rightarrow> page_state \<Rightarrow> page_state" where
  "click_EditWithAI t st =
     (if card_shown t st \<and> currentEditingTweetId st \<noteq> Some (tweet_id t)
      then openTweetEditor t st else st)"

definition click_CloseEditor :: "tweet \<Rightarrow> page_state \<Rightarrow> page_state" where
  "click_CloseEditor t st = (if editor_shown t st then onCloseEditor st else st)"

text \<open>
  The suggestion box with the buttons Accept and Reject stands under the last message
  of the conversation of the tweet, when that message comes from the assistant and the
  pending proposal is truthy:
  \<^verbatim>\<open>hasUpdateInMessage = pendingTweetUpdate && isLastMessage && isAIMessage\<close>.
\<close>

definition suggestion_shown :: "tweet \<Rightarrow> page_state \<Rightarrow> bool" where
  "suggestion_shown t st =
     (editor_shown t st
      \<and> (case tweetConversations st (tweet_id t) of
            None \<Rightarrow> False
          | Some conv \<Rightarrow> conv \<noteq> [] \<and> message_role (last conv) = ''assistant'')
      \<and> truthy (pendingTweetUpdate st))"

text \<open>
  Accept is \<^verbatim>\<open>disabled={pendingTweetUpdate.length > 280}\<close>; its handler is
  \<^verbatim>\<open>acceptTweetUpdate\<close>, which has no other caller. Under the same condition the box
  shows the line \<^verbatim>\<open>Tweet is too long! Ask the AI to shorten it.\<close> The length of a
  string is the length of the list of its characters.
\<close>

definition click_Accept :: "tweet \<Rightarrow> page_state \<Rightarrow> page_state" where
  "click_Accept t st =
     (case pendingTweetUpdate st of
        None \<Rightarrow> st
      | Some update \<Rightarrow>
          if suggestion_shown t st \<and> \<not> length update > 280
          then acceptTweetUpdate st else st)"

definition too_long_shown :: "tweet \<Rightarrow> page_state \<Rightarrow> bool" where
  "too_long_shown t st =
     (case pendingTweetUpdate st of
        None \<Rightarrow> False
      | Some update \<Rightarrow> suggestion_shown t st \<and> length update > 280)"

definition click_Reject :: "tweet \<Rightarrow> page_state \<Rightarrow> page_state" where
  "click_Reject t st = (if suggestion_shown t st then rejectTweetUpdate st else st)"

text \<open>
  The message form of the inline editor: \<^verbatim>\<open>if (!message.trim()) return\<close>, then
  \<^verbatim>\<open>await onSendMessage(message)\<close>, that is \<^verbatim>\<open>sendTweetMessage\<close>. The form and its
  Send button carry no \<^verbatim>\<open>disabled\<close> attribute. \<^verbatim>\<open>trim\<close> leaves nothing of a
  message exactly when all of its characters are white space; of the white space of
  JavaScript the model knows the characters below.
\<close>

definition js_space :: "char \<Rightarrow> bool" where
  "js_space c = (c \<in> set [CHR 0x20, CHR 0x09, CHR 0x0A, CHR 0x0B, CHR 0x0C, CHR 0x0D])"

definition submit_Send :: "tweet \<Rightarrow> string \<Rightarrow> page_state \<Rightarrow> page_state \<times> effect list" where
  "submit_Send t msg st =
     (if editor_shown t st
      then (if list_all js_space msg then (st, []) else sendTweetMessage msg st)
      else (st, []))"

subsection \<open>Opening the modal editor\<close>

text \<open>
  \<^verbatim>\<open>openEditor\<close> writes the number of a tweet into the title,
  \<^verbatim>\<open>`Edit Tweet ${idx + 1}`\<close>: \<open>show_nat\<close> is the decimal numeral of a natural number.
  The text of a tweet target is \<^verbatim>\<open>tweets[idx]?.content || ''\<close>.
\<close>

definition digit_char :: "nat \<Rightarrow> char" where
  "digit_char d = ''0123456789'' ! d"

function show_nat :: "nat \<Rightarrow> string" where
  "show_nat n =
     (if n < 10 then [digit_char n] else show_nat (n div 10) @ [digit_char (n mod 10)])"
  by pat_completeness auto
termination
  by (relation "measure id") auto

declare show_nat.simps [simp del]

definition openEditor :: "edit_target \<Rightarrow> page_state \<Rightarrow> page_state" where
  "openEditor target st =
     (case target of
        Summary \<Rightarrow>
          st\<lparr>editTarget := target, editorTitle := ''Edit Summary'',
             editorText := summary st, editorOpen := True\<rparr>
      | TweetTarget idx \<Rightarrow>
          st\<lparr>editTarget := target, editorTitle := ''Edit Tweet '' @ show_nat (idx + 1),
             editorText := (if idx < length (tweets st)
                            then tweet_content (tweets st ! idx) else []),
             editorOpen := True\<rparr>
      | Newsletter \<Rightarrow>
          st\<lparr>editTarget := target, editorTitle := ''Edit Newsletter (HTML)'',
             editorText := newsletterHtml st, editorOpen := True\<rparr>)"

text \<open>
  The only call of \<^verbatim>\<open>openEditor\<close> in the page: the button "Edit with AI" of the
  newsletter card, \<^verbatim>\<open>onClick={() => openEditor('newsletter')} disabled={!newsletterHtml}\<close>.
\<close>

definition click_EditNewsletter :: "page_state \<Rightarrow> page_state" where
  "click_EditNewsletter st = (if newsletterHtml st \<noteq> [] then openEditor Newsletter st else st)"

subsection \<open>The other stages of the pipeline\<close>

text \<open>
  \<^verbatim>\<open>fetchAndSummarize\<close> awaits two requests in a row: the first part sets the flag and
  asks for the articles, the second part passes the articles it got to
  \<^verbatim>\<open>/highlights\<close>, the third part runs the setters.
\<close>

definition fetchAndSummarize :: "page_state \<Rightarrow> page_state \<times> effect list" where
  "fetchAndSummarize st =
     (st\<lparr>loadingHighlights := True\<rparr>, [Fetch (Aggregate (sources st))])"

definition fetchAndSummarize_aggregated :: "string \<Rightarrow> article list \<Rightarrow> effect list" where
  "fetchAndSummarize_aggregated sid dataAgg_articles =
     [Fetch (Highlights sid dataAgg_articles)]"

definition fetchAndSummarize_resolved ::
  "article list \<Rightarrow> string \<Rightarrow> page_state \<Rightarrow> page_state" where
  "fetchAndSummarize_resolved dataAgg_articles summary_markdown st =
     st\<lparr>loadingHighlights := False,
        articles := dataAgg_articles,
        selectedArticles := map article_link dataAgg_articles,
        summary := (if length dataAgg_articles > 0 then summary_markdown
                    else ''No articles found for the selected sources in the past 7 days.''),
        summariesMode := False\<rparr>"

definition fetchAndSummarize_failed :: "page_state \<Rightarrow> page_state" where
  "fetchAndSummarize_failed st = st\<lparr>loadingHighlights := False\<rparr>"

definition makeTweets :: "page_state \<Rightarrow> page_state \<times> effect list" where
  "makeTweets st =
     (st\<lparr>loadingTweets := True\<rparr>, [Fetch (Tweets (sessionId st) (highlights st))])"

definition makeTweets_resolved :: "tweet list \<Rightarrow> page_state \<Rightarrow> page_state" where
  "makeTweets_resolved data_tweets st = st\<lparr>loadingTweets := False, tweets := data_tweets\<rparr>"

definition makeTweets_failed :: "page_state \<Rightarrow> page_state" where
  "makeTweets_failed st = st\<lparr>loadingTweets := False\<rparr>"

definition makeNewsletter :: "page_state \<Rightarrow> page_state \<times> effect list" where
  "makeNewsletter st =
     (st\<lparr>loadingNewsletter := True\<rparr>,
      [Fetch (NewsletterReq (sessionId st) (summary st) (articles st))])"

definition makeNewsletter_resolved :: "string \<Rightarrow> page_state \<Rightarrow> page_state" where
  "makeNewsletter_resolved data_html st =
     st\<lparr>loadingNewsletter := False, newsletterHtml := data_html\<rparr>"

definition makeNewsletter_failed :: "page_state \<Rightarrow> page_state" where
  "makeNewsletter_failed st = st\<lparr>loadingNewsletter := False\<rparr>"

subsection \<open>The buttons that start the stages\<close>

text \<open>
  A button runs its \<^verbatim>\<open>onClick\<close> handler when it is rendered and not \<^verbatim>\<open>disabled\<close>;
  a click on a disabled button does nothing. Each definition gives the condition under
  which the page renders the button, then the negation of its \<^verbatim>\<open>disabled\<close>
  attribute.
\<close>

definition click_GetHighlights :: "page_state \<Rightarrow> page_state \<times> effect list" where
  "click_GetHighlights st =
     (if (\<not> hasHighlights st \<and> \<not> summariesMode st) \<and> \<not> loadingHighlights st
      then fetchAndSummarize st else (st, []))"

definition click_GetSummaries :: "page_state \<Rightarrow> page_state \<times> effect list" where
  "click_GetSummaries st =
     (if (hasHighlights st \<and> \<not> summariesMode st)
         \<and> \<not> (loadingSummaries st \<or> length (selectedArticles st) = 0)
      then getHighlights st else (st, []))"

definition click_GenerateTweets :: "page_state \<Rightarrow> page_state \<times> effect list" where
  "click_GenerateTweets st =
     (if \<not> (length (highlights st) = 0 \<or> loadingTweets st)
      then makeTweets st else (st, []))"

definition click_GenerateNewsletter :: "page_state \<Rightarrow> page_state \<times> effect list" where
  "click_GenerateNewsletter st =
     (if \<not> (length (highlights st) = 0 \<or> loadingNewsletter st)
      then makeNewsletter st else (st, []))"

subsection \<open>The pagination controls\<close>

text \<open>
  \<^verbatim>\<open>setPageIndex(Math.max(0, pageIndex - 1))\<close> and
  \<^verbatim>\<open>setPageIndex(Math.min(highlights.length - 1, pageIndex + 1))\<close>. The two buttons are
  rendered in the paginated view of the summaries when there is more than one
  highlight; the first is disabled at index 0, the second at the last index.
\<close>

definition previousPage :: "page_state \<Rightarrow> page_state" where
  "previousPage st = st\<lparr>pageIndex := max 0 (pageIndex st - 1)\<rparr>"

definition nextPage :: "page_state \<Rightarrow> page_state" where
  "nextPage st = st\<lparr>pageIndex := min (int (length (highlights st)) - 1) (pageIndex st + 1)\<rparr>"

definition click_Previous :: "page_state \<Rightarrow> page_state" where
  "click_Previous st =
     (if (summariesMode st \<and> isPaginated st \<and> length (highlights st) > 1)
         \<and> \<not> pageIndex st = 0
      then previousPage st else st)"

definition click_Next :: "page_state \<Rightarrow> page_state" where
  "click_Next st =
     (if (summariesMode st \<and> isPaginated st \<and> length (highlights st) > 1)
         \<and> \<not> pageIndex st = int (length (highlights st)) - 1
      then nextPage st else st)"

section \<open>The conversation memory of \<^verbatim>\<open>EditorModal\<close>\<close>

text \<open>
  The modal keeps \<^verbatim>\<open>history: ConversationTurn[]\<close> and mirrors it in
  \<^verbatim>\<open>localStorage\<close>, a store of strings under string keys. Both effects compute the key
  as \<^verbatim>\<open>`mem_${sessionId}`\<close> from the \<^verbatim>\<open>sessionId\<close> property, the only property of the
  modal that enters it. \<^verbatim>\<open>JSON.stringify\<close> and \<^verbatim>\<open>JSON.parse\<close> belong to the
  runtime; they are parameters here, and \<^verbatim>\<open>JSON.parse\<close> throwing is the value
  \<open>None\<close>.
\<close>

type_synonym local_storage = "string \<rightharpoonup> string"

definition mem_key :: "string \<Rightarrow> string" where
  "mem_key sid = ''mem_'' @ sid"

text \<open>
  The first effect: \<^verbatim>\<open>const saved = localStorage.getItem(key);
  if (saved) { try { setHistory(JSON.parse(saved)) } catch {} }\<close>
\<close>

definition load_history ::
  "(string \<Rightarrow> conversation_turn list option) \<Rightarrow> string \<Rightarrow> local_storage
     \<Rightarrow> conversation_turn list \<Rightarrow> conversation_turn list" where
  "load_history json_parse sid storage history =
     (case storage (mem_key sid) of
        None \<Rightarrow> history
      | Some saved \<Rightarrow>
          if saved = [] then history
          else (case json_parse saved of None \<Rightarrow> history | Some h \<Rightarrow> h))"

text \<open>The second effect: \<^verbatim>\<open>localStorage.setItem(key, JSON.stringify(history))\<close>\<close>

definition save_history ::
  "(conversation_turn list \<Rightarrow> string) \<Rightarrow> string \<Rightarrow> conversation_turn list
     \<Rightarrow> local_storage \<Rightarrow> local_storage" where
  "save_history json_stringify sid history storage =
     storage(mem_key sid \<mapsto> json_stringify history)"

text \<open>
  The page renders one modal for all of its edit targets and passes it
  \<^verbatim>\<open>sessionId={sessionId}\<close>; \<^verbatim>\<open>editTarget\<close> is not among the properties.
\<close>

definition modal_key :: "page_state \<Rightarrow> string" where
  "modal_key st = mem_key (sessionId st)"

text \<open>
  When the modal is mounted its history is \<open>[]\<close>, and the two effects run in the order
  of the source: the first asks for the stored history to be set, the second stores the
  history of this render, \<open>[]\<close>. If the first has set a history, the modal renders again
  and the second effect runs once more, with that history.
\<close>

definition modal_mount ::
  "(string \<Rightarrow> conversation_turn list option) \<Rightarrow> (conversation_turn list \<Rightarrow> string)
     \<Rightarrow> string \<Rightarrow> local_storage \<Rightarrow> conversation_turn list \<times> local_storage" where
  "modal_mount json_parse json_stringify sid storage =
     (let loaded = load_history json_parse sid storage [];
          storage1 = save_history json_stringify sid [] storage
      in (loaded, save_history json_stringify sid loaded storage1))"

text \<open>
  The configuration sets \<^verbatim>\<open>reactStrictMode: true\<close>. In a development build React then
  runs the effects of a mount a second time before it applies the state they have set:
  the first effect reads what the second has just stored, and of the two histories
  asked for the later one is set.
\<close>

definition modal_mount_strict ::
  "(string \<Rightarrow> conversation_turn list option) \<Rightarrow> (conversation_turn list \<Rightarrow> string)
     \<Rightarrow> string \<Rightarrow> local_storage \<Rightarrow> conversation_turn list \<times> local_storage" where
  "modal_mount_strict json_parse json_stringify sid storage =
     (let loaded1 = load_history json_parse sid storage [];
          storage1 = save_history json_stringify sid [] storage;
          loaded2 = load_history json_parse sid storage1 loaded1
      in (loaded2, save_history json_stringify sid loaded2 storage1))"

text \<open>
  The state cells of the modal and its handler \<^verbatim>\<open>applyEdit\<close>, split at the
  \<^verbatim>\<open>await\<close>. The button Apply is \<^verbatim>\<open>disabled={loading}\<close>, and the modal renders
  nothing unless it is open.
\<close>

record modal_state =
  modal_text :: string
  modal_instruction :: string
  modal_loading :: bool
  modal_history :: "conversation_turn list"

definition applyEdit :: "string \<Rightarrow> modal_state \<Rightarrow> modal_state \<times> effect list" where
  "applyEdit sid ms =
     (ms\<lparr>modal_loading := True\<rparr>,
      [Fetch (Edit sid (modal_text ms) (modal_instruction ms) (modal_history ms))])"

definition applyEdit_resolved ::
  "string \<Rightarrow> conversation_turn list \<Rightarrow> modal_state \<Rightarrow> modal_state" where
  "applyEdit_resolved edited_text data_history ms =
     ms\<lparr>modal_text := edited_text, modal_history := data_history, modal_loading := False\<rparr>"

definition applyEdit_failed :: "modal_state \<Rightarrow> modal_state" where
  "applyEdit_failed ms = ms\<lparr>modal_loading := False\<rparr>"

definition click_Apply :: "bool \<Rightarrow> string \<Rightarrow> modal_state \<Rightarrow> modal_state \<times> effect list" where
  "click_Apply opened sid ms =
     (if opened \<and> \<not> modal_loading ms then applyEdit sid ms else (ms, []))"

section \<open>Sample sessions\<close>

text \<open>The state of a freshly loaded page: the initial values of the state cells.\<close>

definition initial_state :: "string \<Rightarrow> page_state" where
  "initial_state sid =
     \<lparr>sessionId = sid, sources = [], articles = [], summary = [], tweets = [],
      newsletterHtml = [], loading = False, loadingHighlights = False,
      loadingSummaries = False, loadingTweets = False, loadingNewsletter = False,
      summariesMode = False, pageIndex = 0, highlights = [], selectedArticles = [],
      isPaginated = True, currentEditingTweetId = None, tweetConversations = Map.empty,
      pendingTweetUpdate = None, editorOpen = False, editorTitle = ''Editor'',
      editorText = [], editTarget = Summary\<rparr>"

definition article_n :: "string \<Rightarrow> article" where
  "article_n l = \<lparr>article_title = ''Title '' @ l, article_link = l, article_summary = None,
                  article_published = None, article_source = Some ''Feed''\<rparr>"

definition highlight_n :: "string \<Rightarrow> highlight" where
  "highlight_n l = \<lparr>highlight_title = ''Title '' @ l, highlight_link = l,
                    highlight_source = Some ''Feed'', highlight_summary = ''Summary of '' @ l\<rparr>"

definition six_links :: "string list" where
  "six_links = [''u1'', ''u2'', ''u3'', ''u4'', ''u5'', ''u6'']"

text \<open>A fetch has returned six articles; all of them are selected.\<close>

definition fetched_six :: page_state where
  "fetched_six = fetchAndSummarize_resolved (map article_n six_links) ''digest''
                   (initial_state ''s1'')"

definition none_selected :: page_state where
  "none_selected = fetched_six\<lparr>selectedArticles := []\<rparr>"

text \<open>Five highlights are shown and the cursor stands on the last of them.\<close>

definition five_at_last :: page_state where
  "five_at_last = (getHighlights_resolved
       (Some (map highlight_n [''u1'', ''u2'', ''u3'', ''u4'', ''u5''])) fetched_six)
     \<lparr>pageIndex := 4\<rparr>"

definition all_busy :: page_state where
  "all_busy = five_at_last\<lparr>loadingHighlights := True, loadingSummaries := True,
                 loadingTweets := True, loadingNewsletter := True\<rparr>"

definition tweet_a :: tweet where
  "tweet_a = \<lparr>tweet_id = ''a'', tweet_content = ''first post'', tweet_summary_title = ''T1'',
              tweet_summary_link = ''l1'', tweet_summary_source = ''S1''\<rparr>"

definition tweet_b :: tweet where
  "tweet_b = \<lparr>tweet_id = ''b'', tweet_content = ''second post'', tweet_summary_title = ''T2'',
              tweet_summary_link = ''l2'', tweet_summary_source = ''S2''\<rparr>"

definition turns_a :: "message list" where
  "turns_a = [\<lparr>message_role = ''user'', message_content = ''shorter''\<rparr>,
              \<lparr>message_role = ''assistant'', message_content = ''done''\<rparr>]"

text \<open>
  Two tweets; the first is being edited, it has a conversation of two turns and a
  proposal waits for the user's decision.
\<close>

definition editing_a :: page_state where
  "editing_a = (initial_state ''s1'')
     \<lparr>tweets := [tweet_a, tweet_b], currentEditingTweetId := Some ''a'',
      tweetConversations := [''a'' \<mapsto> turns_a],
      pendingTweetUpdate := Some ''proposed text''\<rparr>"

definition reply_a :: edit_response where
  "reply_a = \<lparr>new_tweet = ''shorter first post'',
              conversation_history =
                turns_a @ [\<lparr>message_role = ''user'', message_content = ''more''\<rparr>,
                           \<lparr>message_role = ''assistant'', message_content = ''here''\<rparr>],
              ai_response = ''here''\<rparr>"

text \<open>The same session after a newsletter has been generated.\<close>

definition editing_a_newsletter :: page_state where
  "editing_a_newsletter = makeNewsletter_resolved ''<h1>Weekly</h1>'' editing_a"

definition short_answer :: page_state where
  "short_answer = fst (sendTweetMessage_resolved ''a'' reply_a editing_a)"

definition long_text :: string where
  "long_text = replicate 281 (CHR ''x'')"

definition long_proposal :: page_state where
  "long_proposal = editing_a\<lparr>pendingTweetUpdate := Some long_text\<rparr>"


text \<open>
  Two conversations of the modal, and the JSON functions cut down to them and to the
  empty conversation: \<open>table_stringify\<close> gives the text \<^verbatim>\<open>JSON.stringify\<close> gives for
  each of the three, \<open>table_parse\<close> reads these three texts back and rejects any other.
\<close>

definition talk_one :: "conversation_turn list" where
  "talk_one = [\<lparr>role = User, content = ''shorten the digest''\<rparr>,
               \<lparr>role = Assistant, content = ''done''\<rparr>]"

definition talk_two :: "conversation_turn list" where
  "talk_two = [\<lparr>role = User, content = ''add a header''\<rparr>]"

definition json_one :: string where
  "json_one = ''[{\"role\":\"user\",\"content\":\"shorten the digest\"},{\"role\":\"assistant\",\"content\":\"done\"}]''"

definition json_two :: string where
  "json_two = ''[{\"role\":\"user\",\"content\":\"add a header\"}]''"

definition table_stringify :: "conversation_turn list \<Rightarrow> string" where
  "table_stringify h =
     (if h = talk_one then json_one else if h = talk_two then json_two else ''[]'')"

definition table_parse :: "string \<Rightarrow> conversation_turn list option" where
  "table_parse s =
     (if s = json_one then Some talk_one else if s = json_two then Some talk_two
      else if s = ''[]'' then Some [] else None)"

section \<open>Auxiliary facts about the samples\<close>

lemma length_long_text: "length long_text = 281"
  by (simp add: long_text_def)

lemma long_text_not_empty: "long_text \<noteq> []"
  using length_long_text by fastforce

lemma long_text_not_first: "long_text \<noteq> ''first post''"
proof
  assume "long_text = ''first post''"
  then have "length long_text = length ''first post''" by (rule arg_cong)
  then show False by (simp add: length_long_text)
qed

lemma talk_one_neq_two: "talk_one \<noteq> talk_two"
  by (simp add: talk_one_def talk_two_def)

lemma json_one_neq_two: "json_one \<noteq> json_two"
  by (simp add: json_one_def json_two_def)

lemma json_nonempty: "json_one \<noteq> []" "json_two \<noteq> []"
  by (simp_all add: json_one_def json_two_def)

lemma table_round_trip:
  "table_parse (table_stringify talk_one) = Some talk_one"
  "table_parse (table_stringify talk_two) = Some talk_two"
  using talk_one_neq_two json_one_neq_two
  by (simp_all add: table_parse_def table_stringify_def)

lemma table_stringify_samples:
  "table_stringify talk_one = json_one" "table_stringify talk_two = json_two"
  using talk_one_neq_two by (simp_all add: table_stringify_def)

section \<open>The selection limit of the summarize stage\<close>

text \<open>
  C1, as stated, at an empty selection: \<^verbatim>\<open>getHighlights\<close> checks only
  \<^verbatim>\<open>selectedArticles.length > 5\<close>. Called with nothing selected it raises the loading
  flag and posts an empty article list to \<^verbatim>\<open>/summaries_selected\<close>; it shows no notice.
\<close>

theorem getHighlights_empty_selection_counterexample:
  "length (selectedArticles none_selected) = 0
   \<and> getHighlights none_selected
       = (none_selected\<lparr>loadingSummaries := True\<rparr>, [Fetch (SummariesSelected [])])
   \<and> fst (getHighlights none_selected) \<noteq> none_selected"
  by (simp add: getHighlights_def none_selected_def fetched_six_def
      fetchAndSummarize_resolved_def initial_state_def six_links_def article_n_def)

text \<open>
  C1 (amended). With six or more articles selected \<^verbatim>\<open>getHighlights\<close> sends no
  request, shows the selection notice and leaves the state as it is. With at most five
  selected, none included, it raises \<open>loadingSummaries\<close> and posts the selected articles,
  in the order of the article list. The empty selection is kept out one level up: the
  button "Get Summaries" is disabled while nothing is selected, and a click on it
  neither sends a request nor changes the state.
\<close>

theorem getHighlights_selection_limit:
  "(length (selectedArticles st) > 5 \<longrightarrow>
      getHighlights st = (st, [Alert (length (selectedArticles st))]))
   \<and> (length (selectedArticles st) \<le> 5 \<longrightarrow>
      getHighlights st =
        (st\<lparr>loadingSummaries := True\<rparr>,
         [Fetch (SummariesSelected
            (filter (\<lambda>a. article_link a \<in> set (selectedArticles st)) (articles st)))]))
   \<and> (length (selectedArticles st) = 0 \<longrightarrow> click_GetSummaries st = (st, []))"
  by (simp add: getHighlights_def click_GetSummaries_def)

text \<open>
  The three cases on the sample: six selected, two selected (the second and the fifth
  article), none selected.
\<close>

theorem getHighlights_selection_limit_witness:
  "length (selectedArticles fetched_six) = 6
   \<and> getHighlights fetched_six = (fetched_six, [Alert 6])
   \<and> length (selectedArticles (fetched_six\<lparr>selectedArticles := [''u5'', ''u2'']\<rparr>)) = 2
   \<and> snd (getHighlights (fetched_six\<lparr>selectedArticles := [''u5'', ''u2'']\<rparr>))
       = [Fetch (SummariesSelected [article_n ''u2'', article_n ''u5''])]
   \<and> length (selectedArticles none_selected) = 0
   \<and> click_GetSummaries none_selected = (none_selected, [])"
  using getHighlights_selection_limit [of fetched_six]
    getHighlights_selection_limit [of "fetched_six\<lparr>selectedArticles := [''u5'', ''u2'']\<rparr>"]
    getHighlights_selection_limit [of none_selected]
  by (simp add: none_selected_def fetched_six_def
      fetchAndSummarize_resolved_def initial_state_def six_links_def article_n_def)

section \<open>Accepting a proposal\<close>

text \<open>
  What the handler does once the button has let the click through: with a tweet under
  edit (its id \<open>c\<close> is not empty) and a proposal \<open>p\<close> that is not empty,
  \<^verbatim>\<open>acceptTweetUpdate\<close> writes \<open>p\<close> into the tweets with id \<open>c\<close> and clears the
  proposal.
\<close>

lemma acceptTweetUpdate_commits:
  assumes "currentEditingTweetId st = Some c" and "c \<noteq> []"
    and "pendingTweetUpdate st = Some p" and "p \<noteq> []"
  shows "acceptTweetUpdate st =
           st\<lparr>tweets := map (\<lambda>t. if tweet_id t = c then t\<lparr>tweet_content := p\<rparr> else t) (tweets st),
              pendingTweetUpdate := None\<rparr>"
  using assms by (simp add: acceptTweetUpdate_def truthy_def)

text \<open>
  C2. Accepting goes through the button Accept of the suggestion box, the only caller
  of \<^verbatim>\<open>acceptTweetUpdate\<close>. With a pending proposal \<open>p\<close> of more than 280 characters
  the button is disabled: a click leaves the whole state as it is, so the content of
  the tweets is unchanged and \<open>p\<close> is still pending, and the box says that the tweet is
  too long. With a proposal of at most 280 characters in the box of tweet \<open>t\<close>, a click
  replaces the content of the tweets with the id of \<open>t\<close> by \<open>p\<close>, changes nothing else,
  and clears the proposal.
\<close>

theorem click_Accept_length_gate:
  "(pendingTweetUpdate st = Some p \<and> 280 < length p \<longrightarrow>
      click_Accept t st = st
      \<and> tweets (click_Accept t st) = tweets st
      \<and> pendingTweetUpdate (click_Accept t st) = Some p
      \<and> too_long_shown t st = suggestion_shown t st)
   \<and> (suggestion_shown t st \<and> tweet_id t \<noteq> [] \<and> pendingTweetUpdate st = Some p
        \<and> length p \<le> 280 \<longrightarrow>
      click_Accept t st =
        st\<lparr>tweets := map (\<lambda>x. if tweet_id x = tweet_id t then x\<lparr>tweet_content := p\<rparr> else x)
                       (tweets st),
           pendingTweetUpdate := None\<rparr>
      \<and> t\<lparr>tweet_content := p\<rparr> \<in> set (tweets (click_Accept t st))
      \<and> pendingTweetUpdate (click_Accept t st) = None
      \<and> \<not> too_long_shown t st)"
proof -
  have long: "click_Accept t st = st" "too_long_shown t st = suggestion_shown t st"
    if "pendingTweetUpdate st = Some p" "280 < length p"
    using that by (simp_all add: click_Accept_def too_long_shown_def)
  have short: "click_Accept t st =
        st\<lparr>tweets := map (\<lambda>x. if tweet_id x = tweet_id t then x\<lparr>tweet_content := p\<rparr> else x)
                       (tweets st),
           pendingTweetUpdate := None\<rparr>"
      "t \<in> set (tweets st)" "\<not> too_long_shown t st"
    if sh: "suggestion_shown t st" and id: "tweet_id t \<noteq> []"
      and p: "pendingTweetUpdate st = Some p" and le: "length p \<le> 280"
  proof -
    from sh have cur: "currentEditingTweetId st = Some (tweet_id t)"
      and mem: "t \<in> set (tweets st)" and pne: "p \<noteq> []"
      using p by (simp_all add: suggestion_shown_def editor_shown_def card_shown_def truthy_def)
    from sh p le have "click_Accept t st = acceptTweetUpdate st"
      by (simp add: click_Accept_def)
    then show "click_Accept t st =
        st\<lparr>tweets := map (\<lambda>x. if tweet_id x = tweet_id t then x\<lparr>tweet_content := p\<rparr> else x)
                       (tweets st),
           pendingTweetUpdate := None\<rparr>"
      using acceptTweetUpdate_commits [OF cur id p pne] by simp
    show "t \<in> set (tweets st)" by (rule mem)
    show "\<not> too_long_shown t st" using p le by (simp add: too_long_shown_def)
  qed
  show ?thesis
  proof (intro conjI impI)
    assume a: "pendingTweetUpdate st = Some p \<and> 280 < length p"
    then show "click_Accept t st = st" using long(1) by blast
    from a show "tweets (click_Accept t st) = tweets st" using long(1) by simp
    from a show "pendingTweetUpdate (click_Accept t st) = Some p" using long(1) by simp
    from a show "too_long_shown t st = suggestion_shown t st" using long(2) by blast
  next
    assume a: "suggestion_shown t st \<and> tweet_id t \<noteq> [] \<and> pendingTweetUpdate st = Some p
        \<and> length p \<le> 280"
    then have eq: "click_Accept t st =
        st\<lparr>tweets := map (\<lambda>x. if tweet_id x = tweet_id t then x\<lparr>tweet_content := p\<rparr> else x)
                       (tweets st),
           pendingTweetUpdate := None\<rparr>"
      and mem: "t \<in> set (tweets st)" and nl: "\<not> too_long_shown t st"
      using short by blast+
    show "click_Accept t st =
        st\<lparr>tweets := map (\<lambda>x. if tweet_id x = tweet_id t then x\<lparr>tweet_content := p\<rparr> else x)
                       (tweets st),
           pendingTweetUpdate := None\<rparr>" by (rule eq)
    from mem have "t\<lparr>tweet_content := p\<rparr>
        \<in> (\<lambda>x. if tweet_id x = tweet_id t then x\<lparr>tweet_content := p\<rparr> else x) ` set (tweets st)"
      by (rule rev_image_eqI) simp
    then show "t\<lparr>tweet_content := p\<rparr> \<in> set (tweets (click_Accept t st))"
      by (simp add: eq)
    show "pendingTweetUpdate (click_Accept t st) = None" by (simp add: eq)
    show "\<not> too_long_shown t st" by (rule nl)
  qed
qed

text \<open>
  Both cases on the sample session: a proposal of 281 characters, and one of 13.
\<close>

theorem click_Accept_length_gate_witness:
  "pendingTweetUpdate long_proposal = Some long_text \<and> 280 < length long_text
   \<and> suggestion_shown tweet_a long_proposal
   \<and> click_Accept tweet_a long_proposal = long_proposal
   \<and> too_long_shown tweet_a long_proposal
   \<and> suggestion_shown tweet_a editing_a \<and> tweet_id tweet_a \<noteq> []
   \<and> pendingTweetUpdate editing_a = Some ''proposed text'' \<and> length ''proposed text'' \<le> 280
   \<and> click_Accept tweet_a editing_a =
       editing_a\<lparr>tweets := [tweet_a\<lparr>tweet_content := ''proposed text''\<rparr>, tweet_b],
                 pendingTweetUpdate := None\<rparr>"
  using click_Accept_length_gate [of long_proposal long_text tweet_a]
    click_Accept_length_gate [of editing_a "''proposed text''" tweet_a]
    long_text_not_empty
  by (simp add: length_long_text long_proposal_def editing_a_def initial_state_def
      suggestion_shown_def editor_shown_def card_shown_def truthy_def
      tweet_a_def tweet_b_def turns_a_def)

text \<open>
  C10. Without a tweet under edit, or without a pending proposal,
  \<^verbatim>\<open>acceptTweetUpdate\<close> returns the state it was given: the tweets, the proposal slot and
  every other field are the same.
\<close>

theorem acceptTweetUpdate_noop:
  "currentEditingTweetId st = None \<or> pendingTweetUpdate st = None \<Longrightarrow> acceptTweetUpdate st = st"
  by (auto simp: acceptTweetUpdate_def truthy_def)

theorem acceptTweetUpdate_noop_witness:
  "pendingTweetUpdate (rejectTweetUpdate editing_a) = None
   \<and> currentEditingTweetId (rejectTweetUpdate editing_a) = Some ''a''
   \<and> acceptTweetUpdate (rejectTweetUpdate editing_a) = rejectTweetUpdate editing_a"
  using acceptTweetUpdate_noop [of "rejectTweetUpdate editing_a"]
  by (simp add: rejectTweetUpdate_def editing_a_def)

section \<open>Reset\<close>

text \<open>
  C3, as stated, at a session with a tweet under edit: \<^verbatim>\<open>resetSummaries\<close> has no
  setter for the conversations, the proposal or the tweet under edit, so all three are
  still there after it.
\<close>

theorem resetSummaries_keeps_editor_counterexample:
  "tweetConversations editing_a ''a'' = Some turns_a
   \<and> tweetConversations (resetSummaries editing_a) ''a'' = Some turns_a
   \<and> pendingTweetUpdate (resetSummaries editing_a) = Some ''proposed text''
   \<and> currentEditingTweetId (resetSummaries editing_a) = Some ''a''"
  by (simp add: resetSummaries_def editing_a_def)

text \<open>
  C3 (amended). \<^verbatim>\<open>resetSummaries\<close> empties the article list, the highlight list, the
  tweets, the newsletter, the digest and the selection, sets the cursor to 0, leaves the
  summaries view and turns the paginated view on, so that the page shows its first stage
  again. The conversations, the pending proposal and the tweet under edit are what they
  were.
\<close>

theorem resetSummaries_clears:
  "articles (resetSummaries st) = [] \<and> highlights (resetSummaries st) = []
   \<and> tweets (resetSummaries st) = [] \<and> newsletterHtml (resetSummaries st) = []
   \<and> summary (resetSummaries st) = [] \<and> selectedArticles (resetSummaries st) = []
   \<and> pageIndex (resetSummaries st) = 0
   \<and> \<not> summariesMode (resetSummaries st) \<and> \<not> hasHighlights (resetSummaries st)
   \<and> isPaginated (resetSummaries st)
   \<and> tweetConversations (resetSummaries st) = tweetConversations st
   \<and> pendingTweetUpdate (resetSummaries st) = pendingTweetUpdate st
   \<and> currentEditingTweetId (resetSummaries st) = currentEditingTweetId st"
  by (simp add: resetSummaries_def hasHighlights_def)

section \<open>The tweet editor: switching, rejecting, late answers\<close>

text \<open>
  C8, as stated, at the sample session once a newsletter exists: tweet \<open>a\<close> is under
  edit with a proposal pending, and the user presses "Edit with AI" on the newsletter.
  \<^verbatim>\<open>openEditor\<close> opens the modal on the newsletter and touches neither the tweet under
  edit nor its proposal, so two entities are in edit at once.
\<close>

theorem two_editors_counterexample:
  "editor_shown tweet_a editing_a_newsletter
   \<and> pendingTweetUpdate editing_a_newsletter = Some ''proposed text''
   \<and> \<not> editorOpen editing_a_newsletter
   \<and> editorOpen (click_EditNewsletter editing_a_newsletter)
   \<and> editTarget (click_EditNewsletter editing_a_newsletter) = Newsletter
   \<and> editorText (click_EditNewsletter editing_a_newsletter) = ''<h1>Weekly</h1>''
   \<and> editor_shown tweet_a (click_EditNewsletter editing_a_newsletter)
   \<and> currentEditingTweetId (click_EditNewsletter editing_a_newsletter) = Some ''a''
   \<and> pendingTweetUpdate (click_EditNewsletter editing_a_newsletter) = Some ''proposed text''"
  by (simp add: click_EditNewsletter_def openEditor_def editing_a_newsletter_def
      makeNewsletter_resolved_def editing_a_def initial_state_def editor_shown_def
      card_shown_def tweet_a_def tweet_b_def)

text \<open>
  C8 (amended). When tweet \<open>a\<close> is under edit and the editor is opened on another tweet
  \<open>b\<close> (the button "Edit with AI" on the card of \<open>b\<close>), \<^verbatim>\<open>openTweetEditor\<close> drops the
  pending proposal without writing it anywhere: the tweets are the same, and so is every
  field but the two it sets. Tweet \<open>b\<close> takes the place of \<open>a\<close>: afterwards the inline
  editor is shown on cards with the id of \<open>b\<close> only, so among the tweets at most one is
  under edit. The modal editor is a second, separate edit target: opening a tweet
  editor leaves it as it is, and opening the modal with \<^verbatim>\<open>openEditor\<close> leaves the tweet
  under edit and its pending proposal as they are.
\<close>

theorem openTweetEditor_switches_tweets:
  assumes "currentEditingTweetId st = Some a" and "a \<noteq> tweet_id b"
  shows "openTweetEditor b st
           = st\<lparr>currentEditingTweetId := Some (tweet_id b), pendingTweetUpdate := None\<rparr>
         \<and> pendingTweetUpdate (openTweetEditor b st) = None
         \<and> tweets (openTweetEditor b st) = tweets st
         \<and> (card_shown b st \<longrightarrow> click_EditWithAI b st = openTweetEditor b st)
         \<and> (\<forall>x. editor_shown x (openTweetEditor b st) \<longrightarrow> tweet_id x = tweet_id b)
         \<and> (\<forall>x. tweet_id x = a \<longrightarrow> \<not> editor_shown x (openTweetEditor b st))
         \<and> editorOpen (openTweetEditor b st) = editorOpen st
         \<and> editTarget (openTweetEditor b st) = editTarget st
         \<and> editorOpen (openEditor target st)
         \<and> editTarget (openEditor target st) = target
         \<and> currentEditingTweetId (openEditor target st) = Some a
         \<and> pendingTweetUpdate (openEditor target st) = pendingTweetUpdate st
         \<and> tweets (openEditor target st) = tweets st"
proof -
  have sw: "openTweetEditor b st
      = st\<lparr>currentEditingTweetId := Some (tweet_id b), pendingTweetUpdate := None\<rparr>"
    using assms by (simp add: openTweetEditor_def)
  have click: "click_EditWithAI b st = openTweetEditor b st" if "card_shown b st"
    using that assms by (simp add: click_EditWithAI_def)
  have modal: "editorOpen (openEditor target st)" "editTarget (openEditor target st) = target"
    "currentEditingTweetId (openEditor target st) = Some a"
    "pendingTweetUpdate (openEditor target st) = pendingTweetUpdate st"
    "tweets (openEditor target st) = tweets st"
    using assms(1) by (simp_all add: openEditor_def split: edit_target.splits)
  show ?thesis
    using assms(2) click modal by (auto simp: sw editor_shown_def)
qed

theorem openTweetEditor_switches_tweets_witness:
  "currentEditingTweetId editing_a_newsletter = Some ''a'' \<and> ''a'' \<noteq> tweet_id tweet_b
   \<and> card_shown tweet_b editing_a_newsletter
   \<and> pendingTweetUpdate editing_a_newsletter = Some ''proposed text''
   \<and> pendingTweetUpdate (click_EditWithAI tweet_b editing_a_newsletter) = None
   \<and> tweets (click_EditWithAI tweet_b editing_a_newsletter) = [tweet_a, tweet_b]
   \<and> currentEditingTweetId (click_EditWithAI tweet_b editing_a_newsletter) = Some ''b''
   \<and> editor_shown tweet_b (click_EditWithAI tweet_b editing_a_newsletter)
   \<and> \<not> editor_shown tweet_a (click_EditWithAI tweet_b editing_a_newsletter)
   \<and> currentEditingTweetId (openEditor Newsletter editing_a_newsletter) = Some ''a''"
  using openTweetEditor_switches_tweets [of editing_a_newsletter "''a''" tweet_b Newsletter]
  by (simp add: editing_a_newsletter_def makeNewsletter_resolved_def editing_a_def
      initial_state_def tweet_a_def tweet_b_def card_shown_def editor_shown_def
      click_EditWithAI_def openTweetEditor_def)

text \<open>
  C9. \<^verbatim>\<open>rejectTweetUpdate\<close> clears the pending proposal and nothing else: putting the
  old proposal back gives the old state, and the tweets and the conversations are the
  same. A message sent afterwards causes the request it would have caused before; when
  the tweet under edit \<open>t\<close> has the conversation \<open>h\<close>, that request carries all of \<open>h\<close>.
\<close>

theorem rejectTweetUpdate_frame:
  "pendingTweetUpdate (rejectTweetUpdate st) = None
   \<and> (rejectTweetUpdate st)\<lparr>pendingTweetUpdate := pendingTweetUpdate st\<rparr> = st
   \<and> tweets (rejectTweetUpdate st) = tweets st
   \<and> tweetConversations (rejectTweetUpdate st) = tweetConversations st
   \<and> snd (sendTweetMessage msg (rejectTweetUpdate st)) = snd (sendTweetMessage msg st)
   \<and> (truthy (currentEditingTweetId st)
        \<and> find (\<lambda>t. Some (tweet_id t) = currentEditingTweetId st) (tweets st) = Some t
        \<and> tweetConversations st (tweet_id t) = Some h
      \<longrightarrow> snd (sendTweetMessage msg (rejectTweetUpdate st))
            = [Fetch (EditTweet (sessionId st) (tweet_id t) (tweet_content t)
                 (case find (\<lambda>h. highlight_link h = tweet_summary_link t) (highlights st) of
                    None \<Rightarrow> [] | Some h \<Rightarrow> highlight_summary h)
                 msg h)])"
  by (simp add: rejectTweetUpdate_def sendTweetMessage_def split: option.splits)

theorem rejectTweetUpdate_frame_witness:
  "truthy (currentEditingTweetId editing_a)
   \<and> find (\<lambda>t. Some (tweet_id t) = currentEditingTweetId editing_a) (tweets editing_a) = Some tweet_a
   \<and> tweetConversations editing_a (tweet_id tweet_a) = Some turns_a
   \<and> pendingTweetUpdate (rejectTweetUpdate editing_a) = None
   \<and> tweets (rejectTweetUpdate editing_a) = [tweet_a, tweet_b]
   \<and> snd (sendTweetMessage ''more'' (rejectTweetUpdate editing_a))
       = [Fetch (EditTweet ''s1'' ''a'' ''first post'' [] ''more'' turns_a)]"
  using rejectTweetUpdate_frame [of editing_a "''more''" tweet_a turns_a]
  by (simp add: editing_a_def initial_state_def tweet_a_def tweet_b_def truthy_def
      rejectTweetUpdate_def sendTweetMessage_def)




section \<open>The cursor over the highlights\<close>

text \<open>
  C6, as stated, at its own example: five highlights, the cursor on index 4, and an
  answer of \<^verbatim>\<open>/summaries_selected\<close> with two highlights. The cursor is 0 afterwards, not 1.
\<close>

theorem paginator_replace_counterexample:
  "length (highlights five_at_last) = 5 \<and> pageIndex five_at_last = 4
   \<and> length (highlights (getHighlights_resolved
        (Some [highlight_n ''u1'', highlight_n ''u2'']) five_at_last)) = 2
   \<and> pageIndex (getHighlights_resolved
        (Some [highlight_n ''u1'', highlight_n ''u2'']) five_at_last) = 0
   \<and> pageIndex (getHighlights_resolved
        (Some [highlight_n ''u1'', highlight_n ''u2'']) five_at_last) \<noteq> 1"
  by (simp add: getHighlights_resolved_def five_at_last_def)

text \<open>
  C6 (amended). The two operations that replace the highlight list, the answer of
  \<^verbatim>\<open>getHighlights\<close> and \<^verbatim>\<open>resetSummaries\<close>, set the cursor to 0 whatever it was. On
  a cursor within \<open>[0, length - 1]\<close>, next gives \<open>min (length - 1) (cursor + 1)\<close> and
  previous gives \<open>max 0 (cursor - 1)\<close>, and both results, also those of a click on the two
  buttons, are within \<open>[0, length - 1]\<close> again.
\<close>

theorem paginator_cursor:
  "pageIndex (getHighlights_resolved data_items st) = 0
   \<and> highlights (getHighlights_resolved data_items st)
       = (case data_items of None \<Rightarrow> [] | Some xs \<Rightarrow> xs)
   \<and> pageIndex (resetSummaries st) = 0 \<and> highlights (resetSummaries st) = []
   \<and> (0 \<le> pageIndex st \<and> pageIndex st \<le> int (length (highlights st)) - 1 \<longrightarrow>
        pageIndex (nextPage st) = min (int (length (highlights st)) - 1) (pageIndex st + 1)
        \<and> pageIndex (previousPage st) = max 0 (pageIndex st - 1)
        \<and> 0 \<le> pageIndex (nextPage st)
        \<and> pageIndex (nextPage st) \<le> int (length (highlights (nextPage st))) - 1
        \<and> 0 \<le> pageIndex (previousPage st)
        \<and> pageIndex (previousPage st) \<le> int (length (highlights (previousPage st))) - 1
        \<and> 0 \<le> pageIndex (click_Next st)
        \<and> pageIndex (click_Next st) \<le> int (length (highlights (click_Next st))) - 1
        \<and> 0 \<le> pageIndex (click_Previous st)
        \<and> pageIndex (click_Previous st) \<le> int (length (highlights (click_Previous st))) - 1)"
  by (auto simp: getHighlights_resolved_def resetSummaries_def nextPage_def previousPage_def
      click_Next_def click_Previous_def Let_def split: option.splits)

theorem paginator_cursor_witness:
  "0 \<le> pageIndex five_at_last
   \<and> pageIndex five_at_last \<le> int (length (highlights five_at_last)) - 1
   \<and> pageIndex (nextPage five_at_last) = 4
   \<and> pageIndex (previousPage five_at_last) = 3
   \<and> pageIndex (click_Next five_at_last) = 4
   \<and> pageIndex (click_Previous five_at_last) = 3"
  using paginator_cursor [of None five_at_last]
  by (simp add: five_at_last_def getHighlights_resolved_def fetched_six_def
      fetchAndSummarize_resolved_def initial_state_def nextPage_def previousPage_def
      click_Next_def click_Previous_def)

section \<open>Stages in flight\<close>

text \<open>
  The triggers that guard their call. The four stage buttons and the button Apply of
  the modal are disabled while the flag of their operation is raised: a click then
  sends no request and leaves the state as it is. With the flag down, on a button that
  is rendered and whose other conditions hold, the click runs the handler, which
  raises the flag and sends the request.
\<close>

lemma busy_triggers_drop_click:
  "loadingHighlights st \<Longrightarrow> click_GetHighlights st = (st, [])"
  "loadingSummaries st \<Longrightarrow> click_GetSummaries st = (st, [])"
  "loadingTweets st \<Longrightarrow> click_GenerateTweets st = (st, [])"
  "loadingNewsletter st \<Longrightarrow> click_GenerateNewsletter st = (st, [])"
  "modal_loading ms \<Longrightarrow> click_Apply opened sid ms = (ms, [])"
  by (simp_all add: click_GetHighlights_def click_GetSummaries_def click_GenerateTweets_def
      click_GenerateNewsletter_def click_Apply_def)

lemma idle_triggers_run:
  "\<not> hasHighlights st \<Longrightarrow> \<not> summariesMode st \<Longrightarrow> \<not> loadingHighlights st \<Longrightarrow>
     click_GetHighlights st = (st\<lparr>loadingHighlights := True\<rparr>, [Fetch (Aggregate (sources st))])"
  "hasHighlights st \<Longrightarrow> \<not> summariesMode st \<Longrightarrow> \<not> loadingSummaries st \<Longrightarrow>
     selectedArticles st \<noteq> [] \<Longrightarrow> click_GetSummaries st = getHighlights st"
  "highlights st \<noteq> [] \<Longrightarrow> \<not> loadingTweets st \<Longrightarrow>
     click_GenerateTweets st
       = (st\<lparr>loadingTweets := True\<rparr>, [Fetch (Tweets (sessionId st) (highlights st))])"
  "highlights st \<noteq> [] \<Longrightarrow> \<not> loadingNewsletter st \<Longrightarrow>
     click_GenerateNewsletter st
       = (st\<lparr>loadingNewsletter := True\<rparr>,
          [Fetch (NewsletterReq (sessionId st) (summary st) (articles st))])"
  "opened \<Longrightarrow> \<not> modal_loading ms \<Longrightarrow>
     click_Apply opened sid ms
       = (ms\<lparr>modal_loading := True\<rparr>,
          [Fetch (Edit sid (modal_text ms) (modal_instruction ms) (modal_history ms))])"
  by (simp_all add: click_GetHighlights_def click_GetSummaries_def click_GenerateTweets_def
      click_GenerateNewsletter_def click_Apply_def fetchAndSummarize_def makeTweets_def
      makeNewsletter_def applyEdit_def)

text \<open>
  The message form of the tweet editor raises no flag and reads none: sending leaves
  the state as it is, so a second message sent before the answer to the first meets the
  same state and is treated as the first was.
\<close>

lemma submit_Send_keeps_state:
  "fst (submit_Send t msg st) = st"
  "snd (submit_Send t msg' (fst (submit_Send t msg st))) = snd (submit_Send t msg' st)"
  by (simp_all add: submit_Send_def sendTweetMessage_def split: option.splits)

text \<open>
  C7, for the edit message of a tweet. In the sample session tweet \<open>a\<close> is under edit.
  The user sends "more" and, before any answer has arrived, "again". Both messages are
  posted to \<^verbatim>\<open>/edit_tweet\<close>, with the same conversation and the same current text of
  the tweet; the second is not dropped.
\<close>

theorem send_while_in_flight:
  "editor_shown tweet_a editing_a
   \<and> submit_Send tweet_a ''more'' editing_a
       = (editing_a, [Fetch (EditTweet ''s1'' ''a'' ''first post'' [] ''more'' turns_a)])
   \<and> submit_Send tweet_a ''again'' (fst (submit_Send tweet_a ''more'' editing_a))
       = (editing_a, [Fetch (EditTweet ''s1'' ''a'' ''first post'' [] ''again'' turns_a)])"
  by (simp add: submit_Send_def sendTweetMessage_def editor_shown_def card_shown_def
      js_space_def truthy_def editing_a_def initial_state_def tweet_a_def tweet_b_def)

section \<open>Where the conversations are kept\<close>

text \<open>
  The mount of the modal in a production build: the history it ends with is the stored
  one, and the key holds that history again. In a development build under strict mode,
  where the runtime's functions treat the empty conversation as JSON does, the mount
  ends with the empty history and the key holds the empty conversation, whatever was
  stored there.
\<close>

lemma modal_mount_restores:
  assumes "json_parse (json_stringify h) = Some h" and "json_stringify h \<noteq> []"
  shows "modal_mount json_parse json_stringify s (save_history json_stringify s h storage)
           = (h, save_history json_stringify s h storage)"
  using assms by (simp add: modal_mount_def load_history_def save_history_def Let_def)

lemma modal_mount_strict_empties:
  assumes "json_parse (json_stringify []) = Some []" and "json_stringify [] \<noteq> []"
  shows "modal_mount_strict json_parse json_stringify s storage
           = ([], save_history json_stringify s [] storage)"
  using assms by (simp add: modal_mount_strict_def load_history_def save_history_def Let_def)

text \<open>
  C4, as stated. First, the conversation of a tweet: the answer to a message puts it
  into the page state under the id of the tweet and nowhere else, and a page that is
  loaded again, be it with the same session id, starts without it. Second, the key of
  the modal: it is the same whichever target \<^verbatim>\<open>openEditor\<close> has opened the modal on,
  so the conversation saved for the newsletter replaces the one saved for the digest.
  (The handler takes the three kinds of target; the buttons of this page pass it the
  newsletter only.)
\<close>

theorem conversation_store_counterexample:
  "tweetConversations short_answer ''a'' = Some (conversation_history reply_a)
   \<and> sessionId short_answer = ''s1''
   \<and> tweetConversations (initial_state ''s1'') ''a'' = None
   \<and> editTarget (openEditor Summary (initial_state ''s1''))
       \<noteq> editTarget (openEditor Newsletter (initial_state ''s1''))
   \<and> modal_key (openEditor Summary (initial_state ''s1'')) = ''mem_s1''
   \<and> modal_key (openEditor Newsletter (initial_state ''s1'')) = ''mem_s1''
   \<and> talk_one \<noteq> talk_two
   \<and> save_history table_stringify ''s1'' talk_two
        (save_history table_stringify ''s1'' talk_one Map.empty) ''mem_s1'' = Some json_two
   \<and> load_history table_parse ''s1''
        (save_history table_stringify ''s1'' talk_two
           (save_history table_stringify ''s1'' talk_one Map.empty)) [] = talk_two"
  using talk_one_neq_two json_one_neq_two json_nonempty
  by (simp add: short_answer_def sendTweetMessage_resolved_def editing_a_def
      openEditor_def modal_key_def mem_key_def initial_state_def load_history_def
      save_history_def table_stringify_samples table_parse_def)

text \<open>
  C4 (amended). Only the conversation of the modal editor is written to the durable
  store, under a key made from the session id \<open>s\<close> alone: the key is the same for every
  edit target the modal is opened on. Where \<^verbatim>\<open>JSON.parse\<close> reads back what
  \<^verbatim>\<open>JSON.stringify\<close> wrote for \<open>h\<close>, and that text is not empty, saving \<open>h\<close> and then
  loading in the same session gives exactly \<open>h\<close>, turn by turn in the same order,
  whatever was in the store and whatever the modal held before, and so does the mount
  of the modal in a production build; a conversation saved earlier in that session is
  overwritten, one saved in another session \<open>s'\<close> does not disturb it. The conversations
  of the tweets are kept in the page state under the id of the tweet and are not
  written to the store: the history that comes with an answer for tweet \<open>e\<close> is what is
  then found under \<open>e\<close>, and the conversations of the other tweets stay as they are.
\<close>

theorem conversation_round_trip:
  assumes "json_parse (json_stringify h) = Some h" and "json_stringify h \<noteq> []"
  shows "modal_key (openEditor target st) = mem_key (sessionId st)
         \<and> load_history json_parse s (save_history json_stringify s h storage) h0 = h
         \<and> fst (modal_mount json_parse json_stringify s
                  (save_history json_stringify s h storage)) = h
         \<and> load_history json_parse s
             (save_history json_stringify s h (save_history json_stringify s h' storage)) h0 = h
         \<and> (s' \<noteq> s \<longrightarrow>
              load_history json_parse s
                (save_history json_stringify s' h' (save_history json_stringify s h storage)) h0 = h)
         \<and> tweetConversations (fst (sendTweetMessage_resolved e data st)) e
             = Some (conversation_history data)
         \<and> (e' \<noteq> e \<longrightarrow>
              tweetConversations (fst (sendTweetMessage_resolved e data st)) e'
                = tweetConversations st e')"
proof -
  have key: "modal_key (openEditor target st) = mem_key (sessionId st)"
    by (simp add: modal_key_def openEditor_def split: edit_target.splits)
  have mount: "fst (modal_mount json_parse json_stringify s
                  (save_history json_stringify s h storage)) = h"
    using assms modal_mount_restores [of json_parse json_stringify h s storage] by simp
  have store: "load_history json_parse s (save_history json_stringify s h storage) h0 = h"
    "load_history json_parse s
       (save_history json_stringify s h (save_history json_stringify s h' storage)) h0 = h"
    "s' \<noteq> s \<longrightarrow>
       load_history json_parse s
         (save_history json_stringify s' h' (save_history json_stringify s h storage)) h0 = h"
    using assms by (simp_all add: load_history_def save_history_def mem_key_def)
  have page: "tweetConversations (fst (sendTweetMessage_resolved e data st)) e
             = Some (conversation_history data)"
    "e' \<noteq> e \<longrightarrow>
       tweetConversations (fst (sendTweetMessage_resolved e data st)) e'
         = tweetConversations st e'"
    by (simp_all add: sendTweetMessage_resolved_def)
  show ?thesis using key mount store page by blast
qed

theorem conversation_round_trip_witness:
  "table_parse (table_stringify talk_one) = Some talk_one \<and> table_stringify talk_one \<noteq> []
   \<and> ''s2'' \<noteq> ''s1'' \<and> ''b'' \<noteq> ''a''
   \<and> modal_key (openEditor (TweetTarget 1) editing_a) = ''mem_s1''
   \<and> load_history table_parse ''s1'' (save_history table_stringify ''s1'' talk_one Map.empty) []
       = talk_one
   \<and> load_history table_parse ''s1''
       (save_history table_stringify ''s2'' talk_two
          (save_history table_stringify ''s1'' talk_one Map.empty)) [] = talk_one
   \<and> tweetConversations (fst (sendTweetMessage_resolved ''a'' reply_a editing_a)) ''a''
       = Some (conversation_history reply_a)
   \<and> tweetConversations (fst (sendTweetMessage_resolved ''a'' reply_a editing_a)) ''b'' = None"
  using conversation_round_trip [of table_parse table_stringify talk_one "TweetTarget 1"
      editing_a "''s1''" Map.empty "[]" talk_two "''s2''" "''a''" reply_a "''b''"]
    table_round_trip json_nonempty
  by (simp add: table_stringify_samples mem_key_def editing_a_def initial_state_def)

end
